theory Spec2Isabelle
  imports Main "HOL-Library.Word" "HOL-Library.Sublist"
begin

section \<open>JavaScript values, requests and responses\<close>

text \<open>
  The controller inspects a handful of JavaScript values: the return values of the service
  calls (tested for truthiness), the query parameter \<open>simulateTimeout\<close> (compared with
  \<open>===\<close> against the string \<open>'true'\<close>) and the JSON bodies it sends.  \<open>JNum\<close> covers the
  integer-valued numbers only; fractional numbers and \<open>NaN\<close> are left out.
\<close>

datatype jsvalue =
    JUndefined
  | JNull
  | JBool bool
  | JNum int
  | JStr string
  | JArr "jsvalue list"
  | JObj "(string \<times> jsvalue) list"

text \<open>JavaScript truthiness, as used by \<open>if (x)\<close> and \<open>!x\<close>.\<close>

fun truthy :: "jsvalue \<Rightarrow> bool" where
  "truthy JUndefined = False"
| "truthy JNull = False"
| "truthy (JBool b) = b"
| "truthy (JNum n) = (n \<noteq> 0)"
| "truthy (JStr s) = (s \<noteq> [])"
| "truthy (JArr _) = True"
| "truthy (JObj _) = True"

text \<open>
  \<open>v === 'literal'\<close>: strict equality with a string literal holds for a string value with the
  same characters and for nothing else (no coercion).
\<close>

fun strict_eq_str :: "jsvalue \<Rightarrow> string \<Rightarrow> bool" where
  "strict_eq_str (JStr s) t = (s = t)"
| "strict_eq_str _ t = False"

text \<open>Reading a property of an object: an absent key reads as \<open>undefined\<close>.\<close>

definition get_prop :: "(string \<rightharpoonup> jsvalue) \<Rightarrow> string \<Rightarrow> jsvalue" where
  "get_prop obj k = (case obj k of None \<Rightarrow> JUndefined | Some v \<Rightarrow> v)"

type_synonym byte = "8 word"

text \<open>\<open>req.file\<close> as Multer's memory storage provides it.\<close>

record uploaded_file =
  buffer :: "byte list"
  originalname :: string
  mimetype :: string

record credentials =
  client_id :: jsvalue
  client_secret :: jsvalue

text \<open>
  The request as the handler reads it.  \<open>req.file\<close> is \<open>undefined\<close> unless an upload
  middleware has stored a file; \<open>req.body\<close> is \<open>undefined\<close> unless a body parser has run;
  \<open>req.query\<close> is always an object.
\<close>

record request =
  req_file :: "uploaded_file option"
  req_body :: "credentials option"
  req_query :: "string \<rightharpoonup> jsvalue"

text \<open>\<open>res.status(code).json(payload)\<close>.\<close>

record response =
  status :: nat
  json :: jsvalue

definition message :: "string \<Rightarrow> jsvalue" where
  "message m = JObj [(''message'', JStr m)]"

section \<open>The service collaborators\<close>

text \<open>
  \<open>authService\<close> and \<open>invoiceService\<close> are awaited calls: each either resolves to a value or
  rejects with an error value.  The controller is modelled for every behaviour of these
  collaborators, so they are parameters.  Every awaited call is taken to settle.
\<close>

datatype 'a outcome = Returns 'a | Throws jsvalue

record services =
  authService_authenticate :: "jsvalue \<Rightarrow> jsvalue \<Rightarrow> jsvalue outcome"
  invoiceService_validatePDF :: "byte list \<Rightarrow> string \<Rightarrow> string \<Rightarrow> jsvalue outcome"
  invoiceService_isPdfEncrypted :: "byte list \<Rightarrow> jsvalue outcome"
  invoiceService_checkPdfIntegrity :: "byte list \<Rightarrow> jsvalue outcome"
  invoiceService_validateSizeFile :: "byte list \<Rightarrow> jsvalue outcome"
  invoiceService_uploadInvoice :: "uploaded_file \<Rightarrow> jsvalue outcome"

text \<open>
  The stages of one run of the handler, logged as the run reaches them: the two checks the
  handler does itself (\<open>if (!req.file)\<close> and the \<open>simulateTimeout\<close> test) and the six
  collaborator calls.
\<close>

datatype stage =
    FileCheck
  | Authenticate
  | TimeoutHook
  | ValidatePDF
  | IsPdfEncrypted
  | CheckPdfIntegrity
  | ValidateSizeFile
  | UploadInvoice

definition pipeline_order :: "stage list" where
  "pipeline_order =
    [FileCheck, Authenticate, TimeoutHook, ValidatePDF, IsPdfEncrypted, CheckPdfIntegrity,
     ValidateSizeFile, UploadInvoice]"

section \<open>The controller: \<open>uploadInvoice\<close>\<close>

text \<open>
  The body of the outer \<open>try\<close> block of \<open>exports.uploadInvoice\<close>.  The result is \<open>Inr\<close> of
  the response a \<open>return res.status(..).json(..)\<close> sends, or \<open>Inl\<close> of an error that leaves
  the block; the second component is the log of the stages reached.  Destructuring
  \<open>req.body\<close> when it is \<open>undefined\<close> throws a \<open>TypeError\<close>.
\<close>

definition type_error :: jsvalue where
  "type_error = JObj [(''name'', JStr ''TypeError'')]"

definition uploadInvoice_try :: "services \<Rightarrow> request \<Rightarrow> (jsvalue + response) \<times> stage list" where
  "uploadInvoice_try sv req =
    (case req_file req of
       None \<Rightarrow> (Inr \<lparr>status = 400, json = message ''No file uploaded''\<rparr>, [FileCheck])
     | Some f \<Rightarrow>
    (case req_body req of
       None \<Rightarrow> (Inl type_error, [FileCheck])
     | Some b \<Rightarrow>
    (case authService_authenticate sv (client_id b) (client_secret b) of
       Throws authError \<Rightarrow>
         (Inr \<lparr>status = 500, json = message ''Internal Server Error''\<rparr>,
          [FileCheck, Authenticate])
     | Returns isAuthorized \<Rightarrow>
    if \<not> truthy isAuthorized then
      (Inr \<lparr>status = 401, json = message ''Unauthorized''\<rparr>, [FileCheck, Authenticate])
    else if strict_eq_str (get_prop (req_query req) ''simulateTimeout'') ''true'' then
      (Inr \<lparr>status = 504, json = message ''Server timeout during upload''\<rparr>,
       [FileCheck, Authenticate, TimeoutHook])
    else
    (case invoiceService_validatePDF sv (buffer f) (mimetype f) (originalname f) of
       Throws error \<Rightarrow>
         (Inr \<lparr>status = 415, json = message ''File format is not PDF''\<rparr>,
          [FileCheck, Authenticate, TimeoutHook, ValidatePDF])
     | Returns _ \<Rightarrow>
    (case invoiceService_isPdfEncrypted sv (buffer f) of
       Throws error \<Rightarrow>
         (Inl error, [FileCheck, Authenticate, TimeoutHook, ValidatePDF, IsPdfEncrypted])
     | Returns isEncrypted \<Rightarrow>
    if truthy isEncrypted then
      (Inr \<lparr>status = 400, json = message ''pdf is encrypted''\<rparr>,
       [FileCheck, Authenticate, TimeoutHook, ValidatePDF, IsPdfEncrypted])
    else
    (case invoiceService_checkPdfIntegrity sv (buffer f) of
       Throws error \<Rightarrow>
         (Inl error,
          [FileCheck, Authenticate, TimeoutHook, ValidatePDF, IsPdfEncrypted,
           CheckPdfIntegrity])
     | Returns isValidPdf \<Rightarrow>
    if \<not> truthy isValidPdf then
      (Inr \<lparr>status = 400, json = message ''PDF file is invalid''\<rparr>,
       [FileCheck, Authenticate, TimeoutHook, ValidatePDF, IsPdfEncrypted,
        CheckPdfIntegrity])
    else
    (case invoiceService_validateSizeFile sv (buffer f) of
       Throws error \<Rightarrow>
         (Inr \<lparr>status = 413, json = message ''File size exceeds maximum limit''\<rparr>,
          [FileCheck, Authenticate, TimeoutHook, ValidatePDF, IsPdfEncrypted,
           CheckPdfIntegrity, ValidateSizeFile])
     | Returns _ \<Rightarrow>
    (case invoiceService_uploadInvoice sv f of
       Throws error \<Rightarrow>
         (Inl error,
          [FileCheck, Authenticate, TimeoutHook, ValidatePDF, IsPdfEncrypted,
           CheckPdfIntegrity, ValidateSizeFile, UploadInvoice])
     | Returns result \<Rightarrow>
         (Inr \<lparr>status = 501, json = result\<rparr>,
          [FileCheck, Authenticate, TimeoutHook, ValidatePDF, IsPdfEncrypted,
           CheckPdfIntegrity, ValidateSizeFile, UploadInvoice])))))))))"

text \<open>
  The whole handler: the outer \<open>catch (error)\<close> answers every error that leaves the
  \<open>try\<close> block with status 500 and a fixed message.
\<close>

definition uploadInvoice_run :: "services \<Rightarrow> request \<Rightarrow> response \<times> stage list" where
  "uploadInvoice_run sv req =
    (case uploadInvoice_try sv req of
       (Inr sent, reached) \<Rightarrow> (sent, reached)
     | (Inl error, reached) \<Rightarrow>
         (\<lparr>status = 500, json = message ''Internal server error''\<rparr>, reached))"

definition uploadInvoice :: "services \<Rightarrow> request \<Rightarrow> response" where
  "uploadInvoice sv req = fst (uploadInvoice_run sv req)"

definition stages_reached :: "services \<Rightarrow> request \<Rightarrow> stage list" where
  "stages_reached sv req = snd (uploadInvoice_run sv req)"

text \<open>
  Replacing the error value of every rejected collaborator call by \<open>undefined\<close>: what the
  handler answers must not depend on these values.
\<close>

fun hide_detail :: "'a outcome \<Rightarrow> 'a outcome" where
  "hide_detail (Returns v) = Returns v"
| "hide_detail (Throws detail) = Throws JUndefined"

definition hide_details :: "services \<Rightarrow> services" where
  "hide_details sv =
    \<lparr>authService_authenticate = (\<lambda>cid secret. hide_detail (authService_authenticate sv cid secret)),
     invoiceService_validatePDF =
       (\<lambda>buf mime name. hide_detail (invoiceService_validatePDF sv buf mime name)),
     invoiceService_isPdfEncrypted = (\<lambda>buf. hide_detail (invoiceService_isPdfEncrypted sv buf)),
     invoiceService_checkPdfIntegrity =
       (\<lambda>buf. hide_detail (invoiceService_checkPdfIntegrity sv buf)),
     invoiceService_validateSizeFile =
       (\<lambda>buf. hide_detail (invoiceService_validateSizeFile sv buf)),
     invoiceService_uploadInvoice = (\<lambda>f. hide_detail (invoiceService_uploadInvoice sv f))\<rparr>"

section \<open>The route and the upload middleware\<close>

text \<open>
  What arrives at the router, before any handler of the route has run: the multipart
  payload the client sent (if the request is a multipart form), \<open>req.body\<close> as the
  application left it, and the parsed query string.
\<close>

record multipart =
  part_file :: "uploaded_file option"
  part_fields :: credentials

record http_request =
  http_multipart :: "multipart option"
  http_body :: "credentials option"
  http_query :: "string \<rightharpoonup> jsvalue"

text \<open>
  The request object handed to the first handler of the route.  \<open>req.file\<close> is a property
  that only Multer's \<open>upload.single('file')\<close> writes, so it is \<open>undefined\<close> here.
\<close>

definition express_request :: "http_request \<Rightarrow> request" where
  "express_request h = \<lparr>req_file = None, req_body = http_body h, req_query = http_query h\<rparr>"

text \<open>
  \<open>exports.uploadMiddleware\<close>: \<open>upload.single('file')\<close> stores the file part and the text
  fields of a multipart request on \<open>req\<close>; the callback then answers 400 when no file was
  stored and calls \<open>next()\<close> otherwise (\<open>Inr\<close> of the request passed on).
\<close>

definition uploadMiddleware :: "http_request \<Rightarrow> request \<Rightarrow> response + request" where
  "uploadMiddleware h req =
    (let req' = (case http_multipart h of
                   None \<Rightarrow> req
                 | Some mp \<Rightarrow> req\<lparr>req_file := part_file mp, req_body := Some (part_fields mp)\<rparr>)
     in case req_file req' of
          None \<Rightarrow> Inl \<lparr>status = 400, json = message ''No file uploaded''\<rparr>
        | Some _ \<Rightarrow> Inr req')"

text \<open>
  \<open>router.post('/upload', InvoiceController.uploadInvoice)\<close>: the handler chain of the route
  is \<open>uploadInvoice\<close> alone.
\<close>

definition router_post_upload :: "services \<Rightarrow> http_request \<Rightarrow> response \<times> stage list" where
  "router_post_upload sv h = uploadInvoice_run sv (express_request h)"

section \<open>The validators of \<open>invoiceService\<close>\<close>

text \<open>
  The file \<open>services/invoiceServices.js\<close> is not among the sources; its test suite is.  The
  three validators below follow the component contracts of the specification, and are
  checked against the expectations of that test suite further down.
\<close>

definition bytes_of :: "string \<Rightarrow> byte list" where
  "bytes_of s = map of_char s"

definition pdf_signature :: "byte list" where
  "pdf_signature = bytes_of ''%PDF-''"

text \<open>The extension of a file name: the part from its last dot on, empty without a dot.\<close>

definition extname :: "string \<Rightarrow> string" where
  "extname name =
    (if CHR ''.'' \<in> set name
     then CHR ''.'' # rev (takeWhile (\<lambda>c. c \<noteq> CHR ''.'') (rev name))
     else [])"

datatype format_error = InvalidMimeType | InvalidExtension | InvalidPdfContent

datatype format_check = MimeCheck | ExtensionCheck | ContentCheck

text \<open>
  Modelled from the spec: \<open>validatePDF\<close> of \<open>services/invoiceServices.js\<close> (the Format
  Validator, section 4.1).  It fails \<open>InvalidMimeType\<close> unless the declared MIME type is
  exactly \<open>application/pdf\<close>, \<open>InvalidExtension\<close> unless the extension of the file name is
  \<open>.pdf\<close>, \<open>InvalidPdfContent\<close> unless the content begins with the signature \<open>%PDF-\<close>; the
  checks run in the order MIME, extension, content and stop at the first that fails.  The
  second component lists the checks evaluated.
\<close>

definition validatePDF_run ::
  "byte list \<Rightarrow> string \<Rightarrow> string \<Rightarrow> (format_error + unit) \<times> format_check list" where
  "validatePDF_run content declaredMimeType filename =
    (if declaredMimeType \<noteq> ''application/pdf'' then
       (Inl InvalidMimeType, [MimeCheck])
     else if extname filename \<noteq> ''.pdf'' then
       (Inl InvalidExtension, [MimeCheck, ExtensionCheck])
     else if \<not> prefix pdf_signature content then
       (Inl InvalidPdfContent, [MimeCheck, ExtensionCheck, ContentCheck])
     else
       (Inr (), [MimeCheck, ExtensionCheck, ContentCheck]))"

definition validatePDF :: "byte list \<Rightarrow> string \<Rightarrow> string \<Rightarrow> format_error + unit" where
  "validatePDF content declaredMimeType filename =
    fst (validatePDF_run content declaredMimeType filename)"

datatype size_error = FileTooLarge

definition MAX_FILE_SIZE :: nat where
  "MAX_FILE_SIZE = 20 * 1024 * 1024"

text \<open>
  Modelled from the spec: \<open>validateSizeFile\<close> of \<open>services/invoiceServices.js\<close> (the Size
  Validator, section 4.2).  The maximum is 20 * 1024 * 1024 bytes and the bound is
  inclusive.
\<close>

definition validateSizeFile :: "byte list \<Rightarrow> size_error + unit" where
  "validateSizeFile content =
    (if length content > MAX_FILE_SIZE then Inl FileTooLarge else Inr ())"

text \<open>
  Modelled from the spec: \<open>isPdfEncrypted\<close> of \<open>services/invoiceServices.js\<close> (the Encryption
  Detector, section 4.3).  It scans the raw bytes for the marker of an \<open>/Encrypt\<close> reference
  or of a \<open>/Filter/Standard\<close> encryption dictionary, and is true when such a marker occurs
  anywhere in the byte stream.
\<close>

definition isPdfEncrypted :: "byte list \<Rightarrow> bool" where
  "isPdfEncrypted content \<longleftrightarrow>
     sublist (bytes_of ''/Encrypt'') content \<or> sublist (bytes_of ''/Filter/Standard'') content"

section \<open>Fixtures of the test suite\<close>

text \<open>The buffers of \<open>describe("PDF Validation Format")\<close>.\<close>

definition validPdfBuffer :: "byte list" where
  "validPdfBuffer = bytes_of ''%PDF-1.4 Valid PDF File''"

definition invalidPdfBuffer :: "byte list" where
  "invalidPdfBuffer = bytes_of ''This is not a PDF''"

text \<open>The buffers of \<open>describe("PDF Encryption Check with Real Implementation")\<close>.\<close>

definition unencryptedPdfBuffer :: "byte list" where
  "unencryptedPdfBuffer = bytes_of (
     ''%PDF-1.3\<newline>'' @
     ''1 0 obj\<newline><</Type/Catalog/Pages 2 0 R>>\<newline>endobj\<newline>'' @
     ''2 0 obj\<newline><</Type/Pages/Kids[3 0 R]/Count 1>>\<newline>endobj\<newline>'' @
     ''3 0 obj\<newline><</Type/Page/MediaBox[0 0 595 842]/Parent 2 0 R/Resources<<>>>>\<newline>endobj\<newline>'' @
     ''xref\<newline>0 4\<newline>0000000000 65535 f\<newline>0000000010 00000 n\<newline>0000000053 00000 n\<newline>0000000102 00000 n\<newline>'' @
     ''trailer\<newline><</Size 4/Root 1 0 R>>\<newline>'' @
     ''startxref\<newline>178\<newline>%%EOF'')"

definition encryptedPdfBuffer :: "byte list" where
  "encryptedPdfBuffer = bytes_of (
     ''%PDF-1.3\<newline>'' @
     ''1 0 obj\<newline><</Type/Catalog/Pages 2 0 R>>\<newline>endobj\<newline>'' @
     ''2 0 obj\<newline><</Type/Pages/Kids[3 0 R]/Count 1>>\<newline>endobj\<newline>'' @
     ''3 0 obj\<newline><</Type/Page/MediaBox[0 0 595 842]/Parent 2 0 R/Resources<<>>>>\<newline>endobj\<newline>'' @
     ''4 0 obj\<newline><</Filter/Standard/V 1/R 2/O<1234567890ABCDEF1234567890ABCDEF>/U<ABCDEF1234567890ABCDEF1234567890>/P -3904>>\<newline>endobj\<newline>'' @
     ''xref\<newline>0 5\<newline>0000000000 65535 f\<newline>0000000010 00000 n\<newline>0000000053 00000 n\<newline>0000000102 00000 n\<newline>0000000183 00000 n\<newline>'' @
     ''trailer\<newline><</Size 5/Root 1 0 R/Encrypt 4 0 R>>\<newline>'' @
     ''startxref\<newline>291\<newline>%%EOF'')"

section \<open>Sample collaborators and requests\<close>

text \<open>
  Collaborators that accept everything; the upload stub answers as the test suite expects
  (\<open>"Invoice upload service called"\<close>).
\<close>

definition accepting_services :: services where
  "accepting_services =
    \<lparr>authService_authenticate = (\<lambda>cid secret. Returns (JBool True)),
     invoiceService_validatePDF = (\<lambda>buf mime name. Returns (JBool True)),
     invoiceService_isPdfEncrypted = (\<lambda>buf. Returns (JBool False)),
     invoiceService_checkPdfIntegrity = (\<lambda>buf. Returns (JBool True)),
     invoiceService_validateSizeFile = (\<lambda>buf. Returns (JBool True)),
     invoiceService_uploadInvoice = (\<lambda>f. Returns (message ''Invoice upload service called''))\<rparr>"

definition sample_file :: uploaded_file where
  "sample_file =
    \<lparr>buffer = validPdfBuffer, originalname = ''valid.pdf'', mimetype = ''application/pdf''\<rparr>"

definition sample_credentials :: credentials where
  "sample_credentials = \<lparr>client_id = JStr ''client'', client_secret = JStr ''secret''\<rparr>"

definition sample_request :: request where
  "sample_request =
    \<lparr>req_file = Some sample_file, req_body = Some sample_credentials, req_query = Map.empty\<rparr>"

definition with_query :: "request \<Rightarrow> jsvalue \<Rightarrow> request" where
  "with_query req v = req\<lparr>req_query := [''simulateTimeout'' \<mapsto> v]\<rparr>"

section \<open>Basic facts\<close>

lemmas run_try_defs = uploadInvoice_run_def uploadInvoice_try_def

lemmas run_defs = uploadInvoice_def stages_reached_def run_try_defs

lemmas sample_defs = accepting_services_def sample_request_def sample_file_def
  sample_credentials_def with_query_def get_prop_def

lemmas format_defs = validatePDF_def validatePDF_run_def pdf_signature_def bytes_of_def extname_def

text \<open>
  The runs of the handler, one case for each way through the code: what the request and
  the collaborators did on the way, and the response and log that result.
\<close>

lemma uploadInvoice_run_cases
  [case_names no_file no_body auth_fault unauthorized timeout format_fault encrypt_fault
    encrypted integrity_fault invalid size_fault upload_fault uploaded]:
  obtains
    (no_file)
        "req_file req = None"
      and "uploadInvoice_run sv req =
          (\<lparr>status = 400, json = message ''No file uploaded''\<rparr>,
           [FileCheck])"
  | (no_body) f where
        "req_file req = Some f"
      and "req_body req = None"
      and "uploadInvoice_run sv req =
          (\<lparr>status = 500, json = message ''Internal server error''\<rparr>,
           [FileCheck])"
  | (auth_fault) f b e where
        "req_file req = Some f"
      and "req_body req = Some b"
      and "authService_authenticate sv (client_id b) (client_secret b) = Throws e"
      and "uploadInvoice_run sv req =
          (\<lparr>status = 500, json = message ''Internal Server Error''\<rparr>,
           [FileCheck, Authenticate])"
  | (unauthorized) f b a where
        "req_file req = Some f"
      and "req_body req = Some b"
      and "authService_authenticate sv (client_id b) (client_secret b) = Returns a"
      and "\<not> truthy a"
      and "uploadInvoice_run sv req =
          (\<lparr>status = 401, json = message ''Unauthorized''\<rparr>,
           [FileCheck, Authenticate])"
  | (timeout) f b a where
        "req_file req = Some f"
      and "req_body req = Some b"
      and "authService_authenticate sv (client_id b) (client_secret b) = Returns a"
      and "truthy a"
      and "strict_eq_str (get_prop (req_query req) ''simulateTimeout'') ''true''"
      and "uploadInvoice_run sv req =
          (\<lparr>status = 504, json = message ''Server timeout during upload''\<rparr>,
           [FileCheck, Authenticate, TimeoutHook])"
  | (format_fault) f b a e where
        "req_file req = Some f"
      and "req_body req = Some b"
      and "authService_authenticate sv (client_id b) (client_secret b) = Returns a"
      and "truthy a"
      and "\<not> strict_eq_str (get_prop (req_query req) ''simulateTimeout'') ''true''"
      and "invoiceService_validatePDF sv (buffer f) (mimetype f) (originalname f) = Throws e"
      and "uploadInvoice_run sv req =
          (\<lparr>status = 415, json = message ''File format is not PDF''\<rparr>,
           [FileCheck, Authenticate, TimeoutHook, ValidatePDF])"
  | (encrypt_fault) f b a v e where
        "req_file req = Some f"
      and "req_body req = Some b"
      and "authService_authenticate sv (client_id b) (client_secret b) = Returns a"
      and "truthy a"
      and "\<not> strict_eq_str (get_prop (req_query req) ''simulateTimeout'') ''true''"
      and "invoiceService_validatePDF sv (buffer f) (mimetype f) (originalname f) = Returns v"
      and "invoiceService_isPdfEncrypted sv (buffer f) = Throws e"
      and "uploadInvoice_run sv req =
          (\<lparr>status = 500, json = message ''Internal server error''\<rparr>,
           [FileCheck, Authenticate, TimeoutHook, ValidatePDF, IsPdfEncrypted])"
  | (encrypted) f b a v enc where
        "req_file req = Some f"
      and "req_body req = Some b"
      and "authService_authenticate sv (client_id b) (client_secret b) = Returns a"
      and "truthy a"
      and "\<not> strict_eq_str (get_prop (req_query req) ''simulateTimeout'') ''true''"
      and "invoiceService_validatePDF sv (buffer f) (mimetype f) (originalname f) = Returns v"
      and "invoiceService_isPdfEncrypted sv (buffer f) = Returns enc" and "truthy enc"
      and "uploadInvoice_run sv req =
          (\<lparr>status = 400, json = message ''pdf is encrypted''\<rparr>,
           [FileCheck, Authenticate, TimeoutHook, ValidatePDF, IsPdfEncrypted])"
  | (integrity_fault) f b a v enc e where
        "req_file req = Some f"
      and "req_body req = Some b"
      and "authService_authenticate sv (client_id b) (client_secret b) = Returns a"
      and "truthy a"
      and "\<not> strict_eq_str (get_prop (req_query req) ''simulateTimeout'') ''true''"
      and "invoiceService_validatePDF sv (buffer f) (mimetype f) (originalname f) = Returns v"
      and "invoiceService_isPdfEncrypted sv (buffer f) = Returns enc" and "\<not> truthy enc"
      and "invoiceService_checkPdfIntegrity sv (buffer f) = Throws e"
      and "uploadInvoice_run sv req =
          (\<lparr>status = 500, json = message ''Internal server error''\<rparr>,
           [FileCheck, Authenticate, TimeoutHook, ValidatePDF, IsPdfEncrypted,
            CheckPdfIntegrity])"
  | (invalid) f b a v enc ok where
        "req_file req = Some f"
      and "req_body req = Some b"
      and "authService_authenticate sv (client_id b) (client_secret b) = Returns a"
      and "truthy a"
      and "\<not> strict_eq_str (get_prop (req_query req) ''simulateTimeout'') ''true''"
      and "invoiceService_validatePDF sv (buffer f) (mimetype f) (originalname f) = Returns v"
      and "invoiceService_isPdfEncrypted sv (buffer f) = Returns enc" and "\<not> truthy enc"
      and "invoiceService_checkPdfIntegrity sv (buffer f) = Returns ok" and "\<not> truthy ok"
      and "uploadInvoice_run sv req =
          (\<lparr>status = 400, json = message ''PDF file is invalid''\<rparr>,
           [FileCheck, Authenticate, TimeoutHook, ValidatePDF, IsPdfEncrypted,
            CheckPdfIntegrity])"
  | (size_fault) f b a v enc ok e where
        "req_file req = Some f"
      and "req_body req = Some b"
      and "authService_authenticate sv (client_id b) (client_secret b) = Returns a"
      and "truthy a"
      and "\<not> strict_eq_str (get_prop (req_query req) ''simulateTimeout'') ''true''"
      and "invoiceService_validatePDF sv (buffer f) (mimetype f) (originalname f) = Returns v"
      and "invoiceService_isPdfEncrypted sv (buffer f) = Returns enc" and "\<not> truthy enc"
      and "invoiceService_checkPdfIntegrity sv (buffer f) = Returns ok" and "truthy ok"
      and "invoiceService_validateSizeFile sv (buffer f) = Throws e"
      and "uploadInvoice_run sv req =
          (\<lparr>status = 413, json = message ''File size exceeds maximum limit''\<rparr>,
           [FileCheck, Authenticate, TimeoutHook, ValidatePDF, IsPdfEncrypted,
            CheckPdfIntegrity, ValidateSizeFile])"
  | (upload_fault) f b a v enc ok szv e where
        "req_file req = Some f"
      and "req_body req = Some b"
      and "authService_authenticate sv (client_id b) (client_secret b) = Returns a"
      and "truthy a"
      and "\<not> strict_eq_str (get_prop (req_query req) ''simulateTimeout'') ''true''"
      and "invoiceService_validatePDF sv (buffer f) (mimetype f) (originalname f) = Returns v"
      and "invoiceService_isPdfEncrypted sv (buffer f) = Returns enc" and "\<not> truthy enc"
      and "invoiceService_checkPdfIntegrity sv (buffer f) = Returns ok" and "truthy ok"
      and "invoiceService_validateSizeFile sv (buffer f) = Returns szv"
      and "invoiceService_uploadInvoice sv f = Throws e"
      and "uploadInvoice_run sv req =
          (\<lparr>status = 500, json = message ''Internal server error''\<rparr>,
           [FileCheck, Authenticate, TimeoutHook, ValidatePDF, IsPdfEncrypted,
            CheckPdfIntegrity, ValidateSizeFile, UploadInvoice])"
  | (uploaded) f b a v enc ok szv result where
        "req_file req = Some f"
      and "req_body req = Some b"
      and "authService_authenticate sv (client_id b) (client_secret b) = Returns a"
      and "truthy a"
      and "\<not> strict_eq_str (get_prop (req_query req) ''simulateTimeout'') ''true''"
      and "invoiceService_validatePDF sv (buffer f) (mimetype f) (originalname f) = Returns v"
      and "invoiceService_isPdfEncrypted sv (buffer f) = Returns enc" and "\<not> truthy enc"
      and "invoiceService_checkPdfIntegrity sv (buffer f) = Returns ok" and "truthy ok"
      and "invoiceService_validateSizeFile sv (buffer f) = Returns szv"
      and "invoiceService_uploadInvoice sv f = Returns result"
      and "uploadInvoice_run sv req =
          (\<lparr>status = 501, json = result\<rparr>,
           [FileCheck, Authenticate, TimeoutHook, ValidatePDF, IsPdfEncrypted,
            CheckPdfIntegrity, ValidateSizeFile, UploadInvoice])"
proof (cases "req_file req")
  case None
  then show ?thesis
    by (intro no_file) (simp_all add: run_try_defs)
next
  case hf: (Some f)
  show ?thesis
  proof (cases "req_body req")
    case None
    with hf show ?thesis
      by (intro no_body [of f]) (simp_all add: run_try_defs)
  next
    case hb: (Some b)
    show ?thesis
    proof (cases "authService_authenticate sv (client_id b) (client_secret b)")
      case (Throws e)
      with hf hb show ?thesis
        by (intro auth_fault [of f b e]) (simp_all add: run_try_defs)
    next
      case au: (Returns a)
      show ?thesis
      proof (cases "truthy a")
        case False
        with hf hb au show ?thesis
          by (intro unauthorized [of f b a]) (simp_all add: run_try_defs)
      next
        case ta: True
        show ?thesis
        proof (cases "strict_eq_str (get_prop (req_query req) ''simulateTimeout'') ''true''")
          case True
          with hf hb au ta show ?thesis
            by (intro timeout [of f b a]) (simp_all add: run_try_defs)
        next
          case nh: False
          note past_hook = hf hb au ta nh
          show ?thesis
          proof (cases "invoiceService_validatePDF sv (buffer f) (mimetype f) (originalname f)")
            case (Throws e)
            with past_hook show ?thesis
              by (intro format_fault [of f b a e]) (simp_all add: run_try_defs)
          next
            case fm: (Returns v)
            show ?thesis
            proof (cases "invoiceService_isPdfEncrypted sv (buffer f)")
              case (Throws e)
              with past_hook fm show ?thesis
                by (intro encrypt_fault [of f b a v e]) (simp_all add: run_try_defs)
            next
              case en: (Returns enc)
              show ?thesis
              proof (cases "truthy enc")
                case True
                with past_hook fm en show ?thesis
                  by (intro encrypted [of f b a v enc]) (simp_all add: run_try_defs)
              next
                case ne: False
                note past_enc = past_hook fm en ne
                show ?thesis
                proof (cases "invoiceService_checkPdfIntegrity sv (buffer f)")
                  case (Throws e)
                  with past_enc show ?thesis
                    by (intro integrity_fault [of f b a v enc e]) (simp_all add: run_try_defs)
                next
                  case ig: (Returns ok)
                  show ?thesis
                  proof (cases "truthy ok")
                    case False
                    with past_enc ig show ?thesis
                      by (intro invalid [of f b a v enc ok]) (simp_all add: run_try_defs)
                  next
                    case tk: True
                    show ?thesis
                    proof (cases "invoiceService_validateSizeFile sv (buffer f)")
                      case (Throws e)
                      with past_enc ig tk show ?thesis
                        by (intro size_fault [of f b a v enc ok e]) (simp_all add: run_try_defs)
                    next
                      case sz: (Returns szv)
                      show ?thesis
                      proof (cases "invoiceService_uploadInvoice sv f")
                        case (Throws e)
                        with past_enc ig tk sz show ?thesis
                          by (intro upload_fault [of f b a v enc ok szv e])
                             (simp_all add: run_try_defs)
                      next
                        case (Returns result)
                        with past_enc ig tk sz show ?thesis
                          by (intro uploaded [of f b a v enc ok szv result])
                             (simp_all add: run_try_defs)
                      qed
                    qed
                  qed
                qed
              qed
            qed
          qed
        qed
      qed
    qed
  qed
qed

text \<open>Whatever the collaborators do, the stages are reached in the one order of the code.\<close>

lemma reached_prefix: "prefix (stages_reached sv req) pipeline_order"
  by (cases sv req rule: uploadInvoice_run_cases)
     (simp_all add: stages_reached_def pipeline_order_def)

text \<open>Status 504 is sent by the timeout hook only.\<close>

lemma status_504_only_by_hook:
  "status (uploadInvoice sv req) = 504 \<Longrightarrow>
   strict_eq_str (get_prop (req_query req) ''simulateTimeout'') ''true''"
  by (cases sv req rule: uploadInvoice_run_cases) (simp_all add: uploadInvoice_def)

text \<open>The timeout test in terms of the query object.\<close>

lemma timeout_flag_iff:
  "strict_eq_str (get_prop q ''simulateTimeout'') ''true'' \<longleftrightarrow>
     q ''simulateTimeout'' = Some (JStr ''true'')"
proof (cases "q ''simulateTimeout''")
  case None
  then show ?thesis by (simp add: get_prop_def)
next
  case (Some v)
  then show ?thesis by (cases v) (simp_all add: get_prop_def)
qed

lemma case_hide_detail:
  "(case hide_detail x of Returns v \<Rightarrow> r v | Throws d \<Rightarrow> t d) =
   (case x of Returns v \<Rightarrow> r v | Throws d \<Rightarrow> t JUndefined)"
  by (cases x) simp_all

text \<open>The response and the log are the same when every error value is replaced.\<close>

lemma hide_details_run: "uploadInvoice_run (hide_details sv) req = uploadInvoice_run sv req"
  by (cases sv req rule: uploadInvoice_run_cases)
     (simp_all add: run_try_defs hide_details_def)

text \<open>
  With \<open>uploadMiddleware\<close> in front, a multipart request that carries a file reaches the
  handler with \<open>req.file\<close> set, and the handler can answer 501.
\<close>

lemma uploadMiddleware_stores_file:
  assumes "http_multipart h = Some mp" and "part_file mp = Some f"
  shows "uploadMiddleware h (express_request h) =
           Inr \<lparr>req_file = Some f, req_body = Some (part_fields mp), req_query = http_query h\<rparr>"
  using assms by (simp add: uploadMiddleware_def express_request_def)

lemma uploadMiddleware_then_uploadInvoice:
  "uploadInvoice accepting_services
     \<lparr>req_file = Some sample_file, req_body = Some sample_credentials, req_query = Map.empty\<rparr> =
   \<lparr>status = 501, json = message ''Invoice upload service called''\<rparr>"
  by (simp add: run_defs sample_defs)

section \<open>The validators against the expectations of the test suite\<close>

text \<open>\<open>describe("PDF Validation Format")\<close>: the four expectations on \<open>validatePDF\<close>.\<close>

lemma test_accept_valid_pdf:
  "validatePDF validPdfBuffer ''application/pdf'' ''valid.pdf'' = Inr ()"
  by (simp add: format_defs validPdfBuffer_def)

lemma test_reject_mime:
  "validatePDF validPdfBuffer ''image/png'' ''valid.png'' = Inl InvalidMimeType"
  by (simp add: validatePDF_def validatePDF_run_def)

lemma test_reject_extension:
  "validatePDF validPdfBuffer ''application/pdf'' ''document.txt'' = Inl InvalidExtension"
  by (simp add: validatePDF_def validatePDF_run_def extname_def)

lemma test_reject_content:
  "validatePDF invalidPdfBuffer ''application/pdf'' ''invalid.pdf'' = Inl InvalidPdfContent"
  by (simp add: format_defs invalidPdfBuffer_def)

text \<open>
  \<open>describe("PDF File Size Validation")\<close>: buffers of 10 MiB, of 21 MiB and of exactly
  20 MiB, whatever they hold.
\<close>

lemma test_size_under:
  "length content = 10 * 1024 * 1024 \<Longrightarrow> validateSizeFile content = Inr ()"
  by (simp add: validateSizeFile_def MAX_FILE_SIZE_def)

lemma test_size_over:
  "length content = 21 * 1024 * 1024 \<Longrightarrow> validateSizeFile content = Inl FileTooLarge"
  by (simp add: validateSizeFile_def MAX_FILE_SIZE_def)

lemma test_size_edge:
  "length content = 20 * 1024 * 1024 \<Longrightarrow> validateSizeFile content = Inr ()"
  by (simp add: validateSizeFile_def MAX_FILE_SIZE_def)

text \<open>
  The two encryption fixtures: the first holds neither marker, the second holds both, so
  the classification does not depend on which of the two markers the detector looks for.
\<close>

lemma unenc_no_encrypt: "\<not> sublist (bytes_of ''/Encrypt'') unencryptedPdfBuffer"
  by code_simp

lemma unenc_no_filter: "\<not> sublist (bytes_of ''/Filter/Standard'') unencryptedPdfBuffer"
  by code_simp

lemma enc_encrypt: "sublist (bytes_of ''/Encrypt'') encryptedPdfBuffer"
  by code_simp

lemma enc_filter: "sublist (bytes_of ''/Filter/Standard'') encryptedPdfBuffer"
  by code_simp

section \<open>The upload pipeline\<close>

text \<open>
  C1: For every upload request, \<open>uploadInvoice\<close> applies the stages in the fixed order
  file-presence check (400, no file uploaded), authentication (401), simulated-timeout hook
  (504), format validation (415), encryption detection (400), integrity check (400), size
  validation (413), then the external upload call, whose result is returned with status
  501.  The first failing stage ends the run: the log of the stages reached stops at it.
  Below, \<open>f\<close> is the file and \<open>b\<close> the body of the request, and each line assumes that all
  earlier stages have passed.
\<close>

theorem uploadInvoice_stage_order:
  fixes sv :: services and req :: request and f :: uploaded_file and b :: credentials
    and a v enc ok :: jsvalue
  defines "resp \<equiv> uploadInvoice sv req"
      and "reached \<equiv> stages_reached sv req"
      and "auth \<equiv> authService_authenticate sv (client_id b) (client_secret b)"
      and "flag \<equiv> strict_eq_str (get_prop (req_query req) ''simulateTimeout'') ''true''"
      and "format \<equiv> invoiceService_validatePDF sv (buffer f) (mimetype f) (originalname f)"
      and "encrypted \<equiv> invoiceService_isPdfEncrypted sv (buffer f)"
      and "integrity \<equiv> invoiceService_checkPdfIntegrity sv (buffer f)"
      and "sized \<equiv> invoiceService_validateSizeFile sv (buffer f)"
      and "upload \<equiv> invoiceService_uploadInvoice sv f"
  defines "has_file \<equiv> req_file req = Some f \<and> req_body req = Some b"
  defines "authorized \<equiv> has_file \<and> auth = Returns a \<and> truthy a"
  defines "format_ok \<equiv> authorized \<and> \<not> flag \<and> format = Returns v"
  defines "not_encrypted \<equiv> format_ok \<and> encrypted = Returns enc \<and> \<not> truthy enc"
  defines "intact \<equiv> not_encrypted \<and> integrity = Returns ok \<and> truthy ok"
  shows
   "prefix reached pipeline_order \<and>
    (req_file req = None \<longrightarrow>
       resp = \<lparr>status = 400, json = message ''No file uploaded''\<rparr> \<and>
       reached = [FileCheck]) \<and>
    (has_file \<and> auth = Returns a \<and> \<not> truthy a \<longrightarrow>
       resp = \<lparr>status = 401, json = message ''Unauthorized''\<rparr> \<and>
       reached = [FileCheck, Authenticate]) \<and>
    (authorized \<and> flag \<longrightarrow>
       resp = \<lparr>status = 504, json = message ''Server timeout during upload''\<rparr> \<and>
       reached = [FileCheck, Authenticate, TimeoutHook]) \<and>
    (authorized \<and> \<not> flag \<and> format = Throws err \<longrightarrow>
       resp = \<lparr>status = 415, json = message ''File format is not PDF''\<rparr> \<and>
       reached = [FileCheck, Authenticate, TimeoutHook, ValidatePDF]) \<and>
    (format_ok \<and> encrypted = Returns enc \<and> truthy enc \<longrightarrow>
       resp = \<lparr>status = 400, json = message ''pdf is encrypted''\<rparr> \<and>
       reached = [FileCheck, Authenticate, TimeoutHook, ValidatePDF, IsPdfEncrypted]) \<and>
    (not_encrypted \<and> integrity = Returns ok \<and> \<not> truthy ok \<longrightarrow>
       resp = \<lparr>status = 400, json = message ''PDF file is invalid''\<rparr> \<and>
       reached = [FileCheck, Authenticate, TimeoutHook, ValidatePDF, IsPdfEncrypted,
                  CheckPdfIntegrity]) \<and>
    (intact \<and> sized = Throws err \<longrightarrow>
       resp = \<lparr>status = 413, json = message ''File size exceeds maximum limit''\<rparr> \<and>
       reached = [FileCheck, Authenticate, TimeoutHook, ValidatePDF, IsPdfEncrypted,
                  CheckPdfIntegrity, ValidateSizeFile]) \<and>
    (intact \<and> sized = Returns szv \<and> upload = Returns result \<longrightarrow>
       resp = \<lparr>status = 501, json = result\<rparr> \<and> reached = pipeline_order)"
  unfolding assms
  using reached_prefix [of sv req]
  by (simp add: run_defs pipeline_order_def)

theorem uploadInvoice_stage_order_witness:
  "uploadInvoice accepting_services (sample_request\<lparr>req_file := None\<rparr>) =
     \<lparr>status = 400, json = message ''No file uploaded''\<rparr> \<and>
   uploadInvoice
     (accepting_services\<lparr>authService_authenticate := \<lambda>cid secret. Returns (JBool False)\<rparr>)
     sample_request = \<lparr>status = 401, json = message ''Unauthorized''\<rparr> \<and>
   uploadInvoice accepting_services (with_query sample_request (JStr ''true'')) =
     \<lparr>status = 504, json = message ''Server timeout during upload''\<rparr> \<and>
   uploadInvoice
     (accepting_services\<lparr>invoiceService_validatePDF :=
        \<lambda>buf mime name. Throws (JStr ''Invalid MIME type'')\<rparr>)
     sample_request = \<lparr>status = 415, json = message ''File format is not PDF''\<rparr> \<and>
   uploadInvoice
     (accepting_services\<lparr>invoiceService_isPdfEncrypted := \<lambda>buf. Returns (JBool True)\<rparr>)
     sample_request = \<lparr>status = 400, json = message ''pdf is encrypted''\<rparr> \<and>
   uploadInvoice
     (accepting_services\<lparr>invoiceService_checkPdfIntegrity := \<lambda>buf. Returns (JBool False)\<rparr>)
     sample_request = \<lparr>status = 400, json = message ''PDF file is invalid''\<rparr> \<and>
   uploadInvoice
     (accepting_services\<lparr>invoiceService_validateSizeFile :=
        \<lambda>buf. Throws (JStr ''File exceeds maximum allowed size of 20MB'')\<rparr>)
     sample_request = \<lparr>status = 413, json = message ''File size exceeds maximum limit''\<rparr> \<and>
   uploadInvoice accepting_services sample_request =
     \<lparr>status = 501, json = message ''Invoice upload service called''\<rparr> \<and>
   stages_reached accepting_services sample_request = pipeline_order"
  using
    uploadInvoice_stage_order [where sv = accepting_services
      and req = "sample_request\<lparr>req_file := None\<rparr>"]
    uploadInvoice_stage_order [where
      sv = "accepting_services\<lparr>authService_authenticate := \<lambda>cid secret. Returns (JBool False)\<rparr>"
      and req = sample_request and f = sample_file and b = sample_credentials
      and a = "JBool False"]
    uploadInvoice_stage_order [where sv = accepting_services
      and req = "with_query sample_request (JStr ''true'')" and f = sample_file
      and b = sample_credentials and a = "JBool True"]
    uploadInvoice_stage_order [where
      sv = "accepting_services\<lparr>invoiceService_validatePDF :=
              \<lambda>buf mime name. Throws (JStr ''Invalid MIME type'')\<rparr>"
      and req = sample_request and f = sample_file and b = sample_credentials
      and a = "JBool True" and err = "JStr ''Invalid MIME type''"]
    uploadInvoice_stage_order [where
      sv = "accepting_services\<lparr>invoiceService_isPdfEncrypted := \<lambda>buf. Returns (JBool True)\<rparr>"
      and req = sample_request and f = sample_file and b = sample_credentials
      and a = "JBool True" and v = "JBool True" and enc = "JBool True"]
    uploadInvoice_stage_order [where
      sv = "accepting_services\<lparr>invoiceService_checkPdfIntegrity := \<lambda>buf. Returns (JBool False)\<rparr>"
      and req = sample_request and f = sample_file and b = sample_credentials
      and a = "JBool True" and v = "JBool True" and enc = "JBool False" and ok = "JBool False"]
    uploadInvoice_stage_order [where
      sv = "accepting_services\<lparr>invoiceService_validateSizeFile :=
              \<lambda>buf. Throws (JStr ''File exceeds maximum allowed size of 20MB'')\<rparr>"
      and req = sample_request and f = sample_file and b = sample_credentials
      and a = "JBool True" and v = "JBool True" and enc = "JBool False" and ok = "JBool True"
      and err = "JStr ''File exceeds maximum allowed size of 20MB''"]
    uploadInvoice_stage_order [where sv = accepting_services
      and req = sample_request and f = sample_file and b = sample_credentials
      and a = "JBool True" and v = "JBool True" and enc = "JBool False" and ok = "JBool True"
      and szv = "JBool True" and result = "message ''Invoice upload service called''"]
  by (simp add: sample_defs)

text \<open>
  C2: An error that no dedicated branch handles is caught by the outer \<open>catch\<close> and
  answered with status 500 and the fixed message \<open>Internal server error\<close>.  Such errors
  arise in four places: reading the credentials of an undefined \<open>req.body\<close>, and a rejected
  call of \<open>isPdfEncrypted\<close>, of \<open>checkPdfIntegrity\<close> or of the upload service.  (A rejected
  call of \<open>validatePDF\<close> or \<open>validateSizeFile\<close> is the failure of that stage, and one of
  \<open>authenticate\<close> has a branch of its own.)  No response carries any part of an error value:
  replacing all of them leaves the response unchanged.
\<close>

theorem uploadInvoice_internal_error:
  fixes sv :: services and req :: request and f :: uploaded_file and b :: credentials
    and a v enc ok :: jsvalue
  defines "resp \<equiv> uploadInvoice sv req"
      and "reached \<equiv> stages_reached sv req"
      and "auth \<equiv> authService_authenticate sv (client_id b) (client_secret b)"
      and "flag \<equiv> strict_eq_str (get_prop (req_query req) ''simulateTimeout'') ''true''"
      and "format \<equiv> invoiceService_validatePDF sv (buffer f) (mimetype f) (originalname f)"
      and "encrypted \<equiv> invoiceService_isPdfEncrypted sv (buffer f)"
      and "integrity \<equiv> invoiceService_checkPdfIntegrity sv (buffer f)"
      and "sized \<equiv> invoiceService_validateSizeFile sv (buffer f)"
      and "upload \<equiv> invoiceService_uploadInvoice sv f"
      and "internal \<equiv> \<lparr>status = 500, json = message ''Internal server error''\<rparr>"
  defines "format_ok \<equiv> req_file req = Some f \<and> req_body req = Some b \<and> auth = Returns a \<and>
             truthy a \<and> \<not> flag \<and> format = Returns v"
  defines "not_encrypted \<equiv> format_ok \<and> encrypted = Returns enc \<and> \<not> truthy enc"
  defines "intact \<equiv> not_encrypted \<and> integrity = Returns ok \<and> truthy ok"
  shows
   "(fst (uploadInvoice_try sv req) = Inl err \<longrightarrow> resp = internal) \<and>
    (req_file req = Some f \<and> req_body req = None \<longrightarrow>
       resp = internal \<and> reached = [FileCheck]) \<and>
    (format_ok \<and> encrypted = Throws err \<longrightarrow>
       resp = internal \<and>
       reached = [FileCheck, Authenticate, TimeoutHook, ValidatePDF, IsPdfEncrypted]) \<and>
    (not_encrypted \<and> integrity = Throws err \<longrightarrow>
       resp = internal \<and>
       reached = [FileCheck, Authenticate, TimeoutHook, ValidatePDF, IsPdfEncrypted,
                  CheckPdfIntegrity]) \<and>
    (intact \<and> sized = Returns szv \<and> upload = Throws err \<longrightarrow>
       resp = internal \<and> reached = pipeline_order) \<and>
    uploadInvoice (hide_details sv) req = resp"
  unfolding assms
  using hide_details_run [of sv req]
  by (simp add: run_defs pipeline_order_def split: prod.splits)

theorem uploadInvoice_internal_error_witness:
  "uploadInvoice accepting_services (sample_request\<lparr>req_body := None\<rparr>) =
     \<lparr>status = 500, json = message ''Internal server error''\<rparr> \<and>
   uploadInvoice
     (accepting_services\<lparr>invoiceService_isPdfEncrypted := \<lambda>buf. Throws (JStr ''ENOMEM'')\<rparr>)
     sample_request = \<lparr>status = 500, json = message ''Internal server error''\<rparr> \<and>
   uploadInvoice
     (accepting_services\<lparr>invoiceService_checkPdfIntegrity := \<lambda>buf. Throws (JStr ''ENOMEM'')\<rparr>)
     sample_request = \<lparr>status = 500, json = message ''Internal server error''\<rparr> \<and>
   uploadInvoice
     (accepting_services\<lparr>invoiceService_uploadInvoice := \<lambda>f. Throws (JStr ''Error'')\<rparr>)
     sample_request = \<lparr>status = 500, json = message ''Internal server error''\<rparr>"
  using
    uploadInvoice_internal_error [where sv = accepting_services
      and req = "sample_request\<lparr>req_body := None\<rparr>" and f = sample_file]
    uploadInvoice_internal_error [where
      sv = "accepting_services\<lparr>invoiceService_isPdfEncrypted := \<lambda>buf. Throws (JStr ''ENOMEM'')\<rparr>"
      and req = sample_request and f = sample_file and b = sample_credentials
      and a = "JBool True" and v = "JBool True" and err = "JStr ''ENOMEM''"]
    uploadInvoice_internal_error [where
      sv = "accepting_services\<lparr>invoiceService_checkPdfIntegrity := \<lambda>buf. Throws (JStr ''ENOMEM'')\<rparr>"
      and req = sample_request and f = sample_file and b = sample_credentials
      and a = "JBool True" and v = "JBool True" and enc = "JBool False"
      and err = "JStr ''ENOMEM''"]
    uploadInvoice_internal_error [where
      sv = "accepting_services\<lparr>invoiceService_uploadInvoice := \<lambda>f. Throws (JStr ''Error'')\<rparr>"
      and req = sample_request and f = sample_file and b = sample_credentials
      and a = "JBool True" and v = "JBool True" and enc = "JBool False" and ok = "JBool True"
      and szv = "JBool True" and err = "JStr ''Error''"]
  by (simp add: sample_defs)

text \<open>
  C7: For every request with a file, an authenticator that returns a falsy value makes the
  handler answer 401 \<open>Unauthorized\<close>, and one that rejects makes it answer 500 with the fixed
  message \<open>Internal Server Error\<close>, whatever the error value is; no later stage is reached
  in either case.  The authenticator is called with the credentials read from \<open>req.body\<close>;
  on a request whose \<open>req.body\<close> is undefined it is not called at all.
\<close>

theorem uploadInvoice_authentication:
  fixes sv :: services and req :: request and f :: uploaded_file and b :: credentials
  defines "auth \<equiv> authService_authenticate sv (client_id b) (client_secret b)"
  assumes "req_file req = Some f"
  shows
   "(req_body req = Some b \<and> auth = Returns a \<and> \<not> truthy a \<longrightarrow>
       uploadInvoice sv req = \<lparr>status = 401, json = message ''Unauthorized''\<rparr> \<and>
       stages_reached sv req = [FileCheck, Authenticate]) \<and>
    (req_body req = Some b \<and> auth = Throws err \<longrightarrow>
       uploadInvoice sv req = \<lparr>status = 500, json = message ''Internal Server Error''\<rparr> \<and>
       stages_reached sv req = [FileCheck, Authenticate]) \<and>
    (req_body req = None \<longrightarrow> Authenticate \<notin> set (stages_reached sv req))"
  using assms(2) unfolding auth_def by (simp add: run_defs)

theorem uploadInvoice_authentication_witness:
  "uploadInvoice (accepting_services\<lparr>authService_authenticate := \<lambda>cid secret. Returns (JBool False)\<rparr>)
     sample_request = \<lparr>status = 401, json = message ''Unauthorized''\<rparr> \<and>
   uploadInvoice
     (accepting_services\<lparr>authService_authenticate := \<lambda>cid secret. Throws (JStr ''ECONNREFUSED'')\<rparr>)
     sample_request = \<lparr>status = 500, json = message ''Internal Server Error''\<rparr> \<and>
   Authenticate \<notin> set (stages_reached accepting_services (sample_request\<lparr>req_body := None\<rparr>))"
  using
    uploadInvoice_authentication [where
      sv = "accepting_services\<lparr>authService_authenticate := \<lambda>cid secret. Returns (JBool False)\<rparr>"
      and req = sample_request and f = sample_file and b = sample_credentials
      and a = "JBool False"]
    uploadInvoice_authentication [where
      sv = "accepting_services\<lparr>authService_authenticate := \<lambda>cid secret. Throws (JStr ''ECONNREFUSED'')\<rparr>"
      and req = sample_request and f = sample_file and b = sample_credentials
      and err = "JStr ''ECONNREFUSED''"]
    uploadInvoice_authentication [where sv = accepting_services
      and req = "sample_request\<lparr>req_body := None\<rparr>" and f = sample_file]
  by (simp add: sample_defs)

text \<open>
  C8: For a request with a file, accepted credentials and the query parameter
  \<open>simulateTimeout\<close> equal to the string \<open>true\<close>, the handler answers 504 and the run ends at
  the timeout hook: none of the validators and not the upload call is reached.
\<close>

theorem simulateTimeout_short_circuit:
  assumes "req_file req = Some f" and "req_body req = Some b"
    and "authService_authenticate sv (client_id b) (client_secret b) = Returns a" and "truthy a"
    and "req_query req ''simulateTimeout'' = Some (JStr ''true'')"
  shows
   "uploadInvoice sv req = \<lparr>status = 504, json = message ''Server timeout during upload''\<rparr> \<and>
    stages_reached sv req = [FileCheck, Authenticate, TimeoutHook] \<and>
    set (stages_reached sv req) \<inter>
      {ValidatePDF, IsPdfEncrypted, CheckPdfIntegrity, ValidateSizeFile, UploadInvoice} = {}"
  using assms by (simp add: run_defs get_prop_def)

theorem simulateTimeout_short_circuit_witness:
  "uploadInvoice accepting_services (with_query sample_request (JStr ''true'')) =
     \<lparr>status = 504, json = message ''Server timeout during upload''\<rparr> \<and>
   stages_reached accepting_services (with_query sample_request (JStr ''true'')) =
     [FileCheck, Authenticate, TimeoutHook]"
  using simulateTimeout_short_circuit [where sv = accepting_services
      and req = "with_query sample_request (JStr ''true'')" and f = sample_file
      and b = sample_credentials and a = "JBool True"]
  by (simp add: sample_defs)

text \<open>
  C10: The handler sends the timeout status 504 only if \<open>req.query.simulateTimeout\<close> is
  exactly the string \<open>true\<close>.  For a request with a file and accepted credentials, so that
  the hook is reached, the short-circuit fires if and only if the parameter is that string;
  for every other value (another string such as \<open>TRUE\<close> or \<open>1\<close>, the boolean \<open>true\<close>, an
  array, or no value) the run goes on to the format validator.
\<close>

theorem simulateTimeout_exact_string:
  fixes sv :: services and req :: request and f :: uploaded_file and b :: credentials
  defines "flag \<equiv> req_query req ''simulateTimeout'' = Some (JStr ''true'')"
  shows
   "(status (uploadInvoice sv req) = 504 \<longrightarrow> flag) \<and>
    (req_file req = Some f \<and> req_body req = Some b \<and>
     authService_authenticate sv (client_id b) (client_secret b) = Returns a \<and> truthy a \<longrightarrow>
       (status (uploadInvoice sv req) = 504 \<longleftrightarrow> flag) \<and>
       (stages_reached sv req = [FileCheck, Authenticate, TimeoutHook] \<longleftrightarrow> flag) \<and>
       (ValidatePDF \<in> set (stages_reached sv req) \<longleftrightarrow> \<not> flag))"
proof -
  let ?hook = "strict_eq_str (get_prop (req_query req) ''simulateTimeout'') ''true''"
  have only_if: "status (uploadInvoice sv req) = 504 \<longrightarrow> ?hook"
    using status_504_only_by_hook [of sv req] by blast
  have reached: "req_file req = Some f \<and> req_body req = Some b \<and>
     authService_authenticate sv (client_id b) (client_secret b) = Returns a \<and> truthy a \<longrightarrow>
       (status (uploadInvoice sv req) = 504 \<longleftrightarrow> ?hook) \<and>
       (stages_reached sv req = [FileCheck, Authenticate, TimeoutHook] \<longleftrightarrow> ?hook) \<and>
       (ValidatePDF \<in> set (stages_reached sv req) \<longleftrightarrow> \<not> ?hook)"
    by (simp add: run_defs split: outcome.splits)
  show ?thesis
    unfolding flag_def timeout_flag_iff [symmetric]
    using only_if reached by blast
qed

theorem simulateTimeout_exact_string_witness:
  "status (uploadInvoice accepting_services (with_query sample_request (JStr ''true''))) = 504 \<and>
   ValidatePDF \<in> set (stages_reached accepting_services (with_query sample_request (JStr ''TRUE''))) \<and>
   ValidatePDF \<in> set (stages_reached accepting_services (with_query sample_request (JStr ''1''))) \<and>
   ValidatePDF \<in> set (stages_reached accepting_services (with_query sample_request (JBool True))) \<and>
   ValidatePDF \<in> set (stages_reached accepting_services sample_request)"
  using
    simulateTimeout_exact_string [where sv = accepting_services
      and req = "with_query sample_request (JStr ''true'')" and f = sample_file
      and b = sample_credentials and a = "JBool True"]
    simulateTimeout_exact_string [where sv = accepting_services
      and req = "with_query sample_request (JStr ''TRUE'')" and f = sample_file
      and b = sample_credentials and a = "JBool True"]
    simulateTimeout_exact_string [where sv = accepting_services
      and req = "with_query sample_request (JStr ''1'')" and f = sample_file
      and b = sample_credentials and a = "JBool True"]
    simulateTimeout_exact_string [where sv = accepting_services
      and req = "with_query sample_request (JBool True)" and f = sample_file
      and b = sample_credentials and a = "JBool True"]
    simulateTimeout_exact_string [where sv = accepting_services
      and req = sample_request and f = sample_file
      and b = sample_credentials and a = "JBool True"]
  by (simp add: sample_defs)

section \<open>The route\<close>

text \<open>
  C9: The route \<open>POST /upload\<close> runs \<open>uploadInvoice\<close> without \<open>uploadMiddleware\<close> before it, so
  \<open>req.file\<close> is not set when the handler runs: every request on the route is answered 400
  \<open>No file uploaded\<close> at the file-presence check, whatever it carries and whatever the
  collaborators would do, and the answer 501 of the upload call cannot occur.
\<close>

theorem router_post_upload_no_file:
  "router_post_upload sv h =
     (\<lparr>status = 400, json = message ''No file uploaded''\<rparr>, [FileCheck]) \<and>
   status (fst (router_post_upload sv h)) \<noteq> 501 \<and>
   UploadInvoice \<notin> set (snd (router_post_upload sv h))"
  by (simp add: router_post_upload_def express_request_def uploadInvoice_run_def uploadInvoice_try_def)

section \<open>The Format Validator\<close>

text \<open>
  C3 (as amended): For all content that does not start with the bytes \<open>%PDF-\<close>, the Format
  Validator fails for every declared MIME type and every file name; the error is
  \<open>InvalidPdfContent\<close> when MIME type and extension are both valid, and otherwise that of the
  first failing earlier check, \<open>InvalidMimeType\<close> or \<open>InvalidExtension\<close>.
\<close>

theorem validatePDF_content_failure:
  assumes "\<not> prefix pdf_signature content"
  shows "validatePDF content declaredMimeType filename =
           Inl (if declaredMimeType \<noteq> ''application/pdf'' then InvalidMimeType
                else if extname filename \<noteq> ''.pdf'' then InvalidExtension
                else InvalidPdfContent)"
  using assms by (simp add: validatePDF_def validatePDF_run_def)

theorem validatePDF_content_failure_witness:
  "\<not> prefix pdf_signature invalidPdfBuffer \<and>
   validatePDF invalidPdfBuffer ''application/pdf'' ''invalid.pdf'' = Inl InvalidPdfContent \<and>
   validatePDF invalidPdfBuffer ''application/pdf'' ''document.txt'' = Inl InvalidExtension"
proof -
  have not_pdf: "\<not> prefix pdf_signature invalidPdfBuffer"
    by (simp add: invalidPdfBuffer_def pdf_signature_def bytes_of_def)
  show ?thesis
    using not_pdf
      validatePDF_content_failure [OF not_pdf, of "''application/pdf''" "''invalid.pdf''"]
      validatePDF_content_failure [OF not_pdf, of "''application/pdf''" "''document.txt''"]
    by (simp add: extname_def)
qed

text \<open>
  C3 as stated asks for \<open>InvalidPdfContent\<close> also when the MIME type is invalid.  On content
  that is not a PDF, declared as \<open>image/png\<close> and named \<open>valid.png\<close>, the validator reports
  \<open>InvalidMimeType\<close>.
\<close>

theorem validatePDF_content_counterexample:
  "\<not> prefix pdf_signature invalidPdfBuffer \<and>
   validatePDF invalidPdfBuffer ''image/png'' ''valid.png'' = Inl InvalidMimeType \<and>
   validatePDF invalidPdfBuffer ''image/png'' ''valid.png'' \<noteq> Inl InvalidPdfContent"
  by (simp add: format_defs invalidPdfBuffer_def)

text \<open>
  C4: The Format Validator evaluates its checks in the order MIME type, file-name
  extension, content signature.  The first failing check gives the error
  (\<open>InvalidMimeType\<close>, \<open>InvalidExtension\<close>, \<open>InvalidPdfContent\<close>) and no later check is
  evaluated: the list of checks evaluated ends with the failing one.
\<close>

theorem validatePDF_check_order:
  "(declaredMimeType \<noteq> ''application/pdf'' \<longrightarrow>
      validatePDF_run content declaredMimeType filename = (Inl InvalidMimeType, [MimeCheck])) \<and>
   (declaredMimeType = ''application/pdf'' \<and> extname filename \<noteq> ''.pdf'' \<longrightarrow>
      validatePDF_run content declaredMimeType filename =
        (Inl InvalidExtension, [MimeCheck, ExtensionCheck])) \<and>
   (declaredMimeType = ''application/pdf'' \<and> extname filename = ''.pdf'' \<and>
    \<not> prefix pdf_signature content \<longrightarrow>
      validatePDF_run content declaredMimeType filename =
        (Inl InvalidPdfContent, [MimeCheck, ExtensionCheck, ContentCheck])) \<and>
   (declaredMimeType = ''application/pdf'' \<and> extname filename = ''.pdf'' \<and>
    prefix pdf_signature content \<longrightarrow>
      validatePDF_run content declaredMimeType filename =
        (Inr (), [MimeCheck, ExtensionCheck, ContentCheck]))"
  by (simp add: validatePDF_run_def)

theorem validatePDF_check_order_witness:
  "validatePDF_run invalidPdfBuffer ''image/png'' ''valid.png'' =
     (Inl InvalidMimeType, [MimeCheck]) \<and>
   validatePDF_run invalidPdfBuffer ''application/pdf'' ''document.txt'' =
     (Inl InvalidExtension, [MimeCheck, ExtensionCheck]) \<and>
   validatePDF_run invalidPdfBuffer ''application/pdf'' ''invalid.pdf'' =
     (Inl InvalidPdfContent, [MimeCheck, ExtensionCheck, ContentCheck]) \<and>
   validatePDF_run validPdfBuffer ''application/pdf'' ''valid.pdf'' =
     (Inr (), [MimeCheck, ExtensionCheck, ContentCheck])"
  using
    validatePDF_check_order [of "''image/png''" invalidPdfBuffer "''valid.png''"]
    validatePDF_check_order [of "''application/pdf''" invalidPdfBuffer "''document.txt''"]
    validatePDF_check_order [of "''application/pdf''" invalidPdfBuffer "''invalid.pdf''"]
    validatePDF_check_order [of "''application/pdf''" validPdfBuffer "''valid.pdf''"]
  by (simp add: extname_def pdf_signature_def bytes_of_def invalidPdfBuffer_def validPdfBuffer_def)

section \<open>The Size Validator\<close>

text \<open>
  C5: The Size Validator succeeds for every content of at most 20 * 1024 * 1024 bytes,
  content of exactly that length included, and fails with \<open>FileTooLarge\<close> for every longer
  content.
\<close>

theorem validateSizeFile_bound:
  "(length content \<le> 20 * 1024 * 1024 \<longrightarrow> validateSizeFile content = Inr ()) \<and>
   (length content = 20 * 1024 * 1024 \<longrightarrow> validateSizeFile content = Inr ()) \<and>
   (20 * 1024 * 1024 < length content \<longrightarrow> validateSizeFile content = Inl FileTooLarge)"
  by (simp add: validateSizeFile_def MAX_FILE_SIZE_def)

theorem validateSizeFile_bound_witness:
  "validateSizeFile (replicate (20 * 1024 * 1024) 0) = Inr () \<and>
   validateSizeFile (replicate (20 * 1024 * 1024 + 1) 0) = Inl FileTooLarge \<and>
   validateSizeFile (bytes_of ''%PDF-'') = Inr ()"
  using
    validateSizeFile_bound [of "replicate (20 * 1024 * 1024) 0"]
    validateSizeFile_bound [of "replicate (20 * 1024 * 1024 + 1) 0"]
    validateSizeFile_bound [of "bytes_of ''%PDF-''"]
  by (simp add: bytes_of_def)

section \<open>The Encryption Detector\<close>

text \<open>
  C6: The Encryption Detector returns false on the minimal unencrypted PDF of the test
  suite (header, catalog, pages and page objects, xref, trailer without \<open>Encrypt\<close>) and true
  on the PDF whose trailer references object 4 as \<open>/Encrypt\<close> and whose object 4 holds a
  \<open>/Filter/Standard\<close> dictionary.
\<close>

theorem isPdfEncrypted_fixtures:
  "isPdfEncrypted unencryptedPdfBuffer = False \<and> isPdfEncrypted encryptedPdfBuffer = True"
  by (simp add: isPdfEncrypted_def unenc_no_encrypt unenc_no_filter enc_encrypt)

end
